theory Spec2Isabelle
  imports Main "HOL-Library.AList"
begin

section \<open>Values, dictionaries and the XML element tree\<close>

text \<open>
  A Python \<open>str\<close> is a \<open>string\<close>. A dictionary value of a record is either a \<open>str\<close>
  or a \<open>float\<close> (latitude and longitude after a successful transform); the type of
  floats is the parameter \<open>'f\<close>. A \<open>dict\<close> is an association list in insertion order:
  \<open>record[k] = v\<close> is \<open>AList.update k v record\<close>, which replaces the value of a key
  that is present and appends a new key at the end, as Python does.
\<close>

datatype 'f pyval = Str string | Flt 'f

type_synonym 'f pydict = "(string \<times> 'f pyval) list"

text \<open>\<open>d.get(key, default)\<close>.\<close>

definition dict_get :: "'f pydict \<Rightarrow> string \<Rightarrow> 'f pyval \<Rightarrow> 'f pyval" where
  "dict_get d key dflt = (case map_of d key of None \<Rightarrow> dflt | Some v \<Rightarrow> v)"

text \<open>\<open>{**a, **b}\<close>: the items of \<open>b\<close> are stored into a copy of \<open>a\<close>, in order.\<close>

definition dict_merge :: "'f pydict \<Rightarrow> 'f pydict \<Rightarrow> 'f pydict" where
  "dict_merge a b = fold (\<lambda>(k, v) d. AList.update k v d) b a"

text \<open>
  The truth value of what \<open>process_directory\<close> returns: \<open>None\<close> and the empty
  dictionary are false.
\<close>

fun truthy :: "'f pydict option \<Rightarrow> bool" where
  "truthy None = False"
| "truthy (Some d) = (d \<noteq> [])"

text \<open>
  An \<open>xml.etree.ElementTree.Element\<close>: tag, attributes, children.
  \<open>root.find(name)\<close> with a plain tag name is the first direct child with that tag;
  \<open>elem.get(key, default)\<close> reads an attribute.
\<close>

datatype element = Element (tag: string) (attrib: "(string \<times> string) list") (children: "element list")

definition Element_find :: "element \<Rightarrow> string \<Rightarrow> element option" where
  "Element_find root name = List.find (\<lambda>c. tag c = name) (children root)"

definition Element_get :: "element \<Rightarrow> string \<Rightarrow> string \<Rightarrow> string" where
  "Element_get elem key dflt = (case map_of (attrib elem) key of None \<Rightarrow> dflt | Some v \<Rightarrow> v)"

section \<open>The libraries the program calls\<close>

text \<open>
  The program calls three library functions whose code is not part of it; they are
  parameters of the model:
  \<^item> \<open>ET_fromstring\<close>: \<open>ET.fromstring\<close>, \<open>None\<close> when it raises \<open>ET.ParseError\<close>;
  \<^item> \<open>py_float\<close>: \<open>float\<close> on a \<open>str\<close>, \<open>None\<close> when it raises \<open>ValueError\<close>;
  \<^item> \<open>Transformer_transform\<close>: building the EPSG:29903 to EPSG:4326 transformer with
    \<open>always_xy=True\<close> and calling \<open>transform(easting, northing)\<close>; \<open>None\<close> when
    either raises an exception, otherwise the pair \<open>(longitude, latitude)\<close>.
\<close>

record 'f libs =
  ET_fromstring :: "string \<Rightarrow> element option"
  py_float :: "string \<Rightarrow> 'f option"
  Transformer_transform :: "'f \<Rightarrow> 'f \<Rightarrow> ('f \<times> 'f) option"

section \<open>The file system\<close>

text \<open>
  A node of the file system is a readable regular file with the text that \<open>f.read()\<close>
  returns under \<open>iso-8859-1\<close>, a regular file that the process may not read, or a
  directory with its entries in the order \<open>os.listdir\<close> enumerates them. A path is the
  list of its components and \<open>os.path.join(p, name)\<close> is \<open>p @ [name]\<close>.
\<close>

datatype node = RegFile string | Unreadable | Directory "(string \<times> node) list"

type_synonym path = "string list"

datatype error = FileNotFoundError | NotADirectoryError | IsADirectoryError | PermissionError

fun lookup :: "node \<Rightarrow> path \<Rightarrow> node option" where
  "lookup n [] = Some n"
| "lookup (Directory es) (c # cs) = (case map_of es c of None \<Rightarrow> None | Some m \<Rightarrow> lookup m cs)"
| "lookup _ (c # cs) = None"

definition os_path_join :: "path \<Rightarrow> string \<Rightarrow> path" where
  "os_path_join p name = p @ [name]"

definition os_path_exists :: "node \<Rightarrow> path \<Rightarrow> bool" where
  "os_path_exists fs p = (case lookup fs p of None \<Rightarrow> False | Some _ \<Rightarrow> True)"

definition os_path_isdir :: "node \<Rightarrow> path \<Rightarrow> bool" where
  "os_path_isdir fs p = (case lookup fs p of Some (Directory _) \<Rightarrow> True | _ \<Rightarrow> False)"

definition os_listdir :: "node \<Rightarrow> path \<Rightarrow> error + string list" where
  "os_listdir fs p =
     (case lookup fs p of
        None \<Rightarrow> Inl FileNotFoundError
      | Some (Directory es) \<Rightarrow> Inr (map fst es)
      | Some _ \<Rightarrow> Inl NotADirectoryError)"

text \<open>\<open>open(file_path, 'r', encoding='iso-8859-1')\<close> followed by \<open>f.read()\<close>.\<close>

definition open_read :: "node \<Rightarrow> path \<Rightarrow> error + string" where
  "open_read fs p =
     (case lookup fs p of
        None \<Rightarrow> Inl FileNotFoundError
      | Some (RegFile s) \<Rightarrow> Inr s
      | Some Unreadable \<Rightarrow> Inl PermissionError
      | Some (Directory _) \<Rightarrow> Inl IsADirectoryError)"

section \<open>The descriptor parsers\<close>

text \<open>
  Both parsers return \<open>Inl e\<close> when an exception \<open>e\<close> leaves them (only \<open>open\<close> can
  raise one that they do not catch), \<open>Inr None\<close> for \<open>return None\<close> and
  \<open>Inr (Some record)\<close> for a dictionary. The diagnostic lines they print are not
  modelled.
\<close>

definition no_coordinates :: "'f pydict \<Rightarrow> 'f pydict" where
  "no_coordinates record = AList.update ''longitude'' (Str '''') (AList.update ''latitude'' (Str '''') record)"

definition parse_0_txt :: "'f libs \<Rightarrow> node \<Rightarrow> path \<Rightarrow> error + 'f pydict option" where
  "parse_0_txt L fs file_path =
     (case open_read fs file_path of
        Inl e \<Rightarrow> Inl e
      | Inr xml_content \<Rightarrow>
          (case ET_fromstring L xml_content of
             None \<Rightarrow> Inr None
           | Some root \<Rightarrow>
               (case Element_find root ''projection'' of
                  Some projection_elem \<Rightarrow>
                    (let proj_x = Element_get projection_elem ''x'' '''';
                         proj_y = Element_get projection_elem ''y'' '''';
                         record = AList.update ''projection_y'' (Str proj_y)
                                    (AList.update ''projection_x'' (Str proj_x) [])
                     in (case py_float L proj_x of
                           None \<Rightarrow> Inr (Some (no_coordinates record))
                         | Some easting \<Rightarrow>
                             (case py_float L proj_y of
                                None \<Rightarrow> Inr (Some (no_coordinates record))
                              | Some northing \<Rightarrow>
                                  (case Transformer_transform L easting northing of
                                     None \<Rightarrow> Inr (Some (no_coordinates record))
                                   | Some (longitude, latitude) \<Rightarrow>
                                       Inr (Some (AList.update ''longitude'' (Flt longitude)
                                                   (AList.update ''latitude'' (Flt latitude) record)))))))
                | None \<Rightarrow>
                    Inr (Some (AList.update ''longitude'' (Str '''')
                                (AList.update ''latitude'' (Str '''')
                                  (AList.update ''projection_y'' (Str '''')
                                    (AList.update ''projection_x'' (Str '''') []))))))))"

definition elements :: "(string \<times> string \<times> string) list" where
  "elements =
     [(''name'', ''name'', ''htmlText''),
      (''translation'', ''translation'', ''htmlText''),
      (''explanation'', ''description'', ''htmlText'')]"

definition extract_element :: "element \<Rightarrow> string \<times> string \<times> string \<Rightarrow> 'f pydict \<Rightarrow> 'f pydict" where
  "extract_element root = (\<lambda>(elem_name, key_name, attr_name) record.
     (case Element_find root elem_name of
        Some elem \<Rightarrow> AList.update key_name (Str (Element_get elem attr_name '''')) record
      | None \<Rightarrow> AList.update key_name (Str '''') record))"

definition parse_8_txt :: "'f libs \<Rightarrow> node \<Rightarrow> path \<Rightarrow> error + 'f pydict option" where
  "parse_8_txt L fs file_path =
     (case open_read fs file_path of
        Inl e \<Rightarrow> Inl e
      | Inr xml_content \<Rightarrow>
          (case ET_fromstring L xml_content of
             None \<Rightarrow> Inr None
           | Some root \<Rightarrow> Inr (Some (fold (extract_element root) elements []))))"

section \<open>The directory record builder\<close>

definition process_directory :: "'f libs \<Rightarrow> node \<Rightarrow> path \<Rightarrow> error + 'f pydict option" where
  "process_directory L fs dirpath =
     (let file_0_txt = os_path_join dirpath ''0.txt'';
          file_8_txt = os_path_join dirpath ''8.txt''
      in if \<not> os_path_exists fs file_0_txt \<or> \<not> os_path_exists fs file_8_txt then Inr None
         else (case parse_0_txt L fs file_0_txt of
                 Inl e \<Rightarrow> Inl e
               | Inr record_0 \<Rightarrow>
                   (case parse_8_txt L fs file_8_txt of
                      Inl e \<Rightarrow> Inl e
                    | Inr record_8 \<Rightarrow>
                        (case (record_0, record_8) of
                           (Some r0, Some r8) \<Rightarrow> Inr (Some (dict_merge r0 r8))
                         | _ \<Rightarrow> Inr None))))"

section \<open>The exporter and the walker\<close>

text \<open>
  \<open>write_csv\<close> takes \<open>io_ok\<close>, whether the operating system lets \<open>output.csv\<close> be
  opened and written without an \<open>IOError\<close>. With it the file holds the header row
  and one row per dictionary; without it the error is caught and reported. Cells are
  kept as values: the CSV quoting and the printing of floats belong to the \<open>csv\<close>
  module.
\<close>

datatype 'f csv_outcome = Written string "'f pyval list list" | IOError_reported string

definition csv_row :: "string list \<Rightarrow> 'f pydict \<Rightarrow> 'f pyval list" where
  "csv_row csv_columns data = map (\<lambda>key. dict_get data key (Str '''')) csv_columns"

definition write_csv :: "bool \<Rightarrow> 'f pydict list \<Rightarrow> string \<Rightarrow> string list \<Rightarrow> 'f csv_outcome" where
  "write_csv io_ok data_list csv_file csv_columns =
     (if io_ok then Written csv_file (map Str csv_columns # map (csv_row csv_columns) data_list)
      else IOError_reported csv_file)"

definition csv_columns :: "string list" where
  "csv_columns =
     [''projection_x'', ''projection_y'', ''latitude'', ''longitude'',
      ''name'', ''translation'', ''description'']"

text \<open>
  The loop of \<open>main\<close> over the names that \<open>os.listdir\<close> returned, with \<open>data_list\<close>
  as accumulator.
\<close>

fun walk :: "'f libs \<Rightarrow> node \<Rightarrow> path \<Rightarrow> string list \<Rightarrow> 'f pydict list \<Rightarrow> error + 'f pydict list" where
  "walk L fs root_dir [] data_list = Inr data_list"
| "walk L fs root_dir (dir_name # rest) data_list =
     (let dir_path = os_path_join root_dir dir_name
      in if os_path_isdir fs dir_path then
           (let menu_tab_path = os_path_join dir_path ''menuTabs''
            in if os_path_isdir fs menu_tab_path then
                 (case process_directory L fs menu_tab_path of
                    Inl e \<Rightarrow> Inl e
                  | Inr record \<Rightarrow>
                      walk L fs root_dir rest
                        (if truthy record then data_list @ [the record] else data_list))
               else walk L fs root_dir rest data_list)
         else walk L fs root_dir rest data_list)"

text \<open>
  \<open>root_dir\<close> is a constant of the source that is edited before a run; it is a
  parameter here.
\<close>

definition main :: "'f libs \<Rightarrow> bool \<Rightarrow> node \<Rightarrow> path \<Rightarrow> error + 'f csv_outcome" where
  "main L io_ok fs root_dir =
     (case os_listdir fs root_dir of
        Inl e \<Rightarrow> Inl e
      | Inr names \<Rightarrow>
          (case walk L fs root_dir names [] of
             Inl e \<Rightarrow> Inl e
           | Inr data_list \<Rightarrow> Inr (write_csv io_ok data_list ''output.csv'' csv_columns)))"

section \<open>Notions used in the statements\<close>

text \<open>
  The attribute \<open>attr_name\<close> of the first top-level element named \<open>elem_name\<close>, and
  the empty string when the element or the attribute is absent.
\<close>

definition element_attr :: "element \<Rightarrow> string \<Rightarrow> string \<Rightarrow> string" where
  "element_attr root elem_name attr_name =
     (case Element_find root elem_name of None \<Rightarrow> '''' | Some elem \<Rightarrow> Element_get elem attr_name '''')"

text \<open>The path is a regular file that the process can read.\<close>

definition readable_file :: "node \<Rightarrow> path \<Rightarrow> bool" where
  "readable_file fs p = (case lookup fs p of Some (RegFile _) \<Rightarrow> True | _ \<Rightarrow> False)"

text \<open>The path is a regular file (readable or not), as \<open>os.path.isfile\<close> tests.\<close>

definition regular_file :: "node \<Rightarrow> path \<Rightarrow> bool" where
  "regular_file fs p = (case lookup fs p of Some (RegFile _) \<Rightarrow> True | Some Unreadable \<Rightarrow> True | _ \<Rightarrow> False)"

text \<open>The path is a readable file whose text \<open>ET.fromstring\<close> rejects.\<close>

definition malformed :: "'f libs \<Rightarrow> node \<Rightarrow> path \<Rightarrow> bool" where
  "malformed L fs p = (case lookup fs p of Some (RegFile s) \<Rightarrow> ET_fromstring L s = None | _ \<Rightarrow> False)"

text \<open>
  Where a directory holds both descriptor paths, both are readable regular files: the
  two calls of \<open>open\<close> in \<open>process_directory\<close> succeed.
\<close>

definition descriptors_readable :: "node \<Rightarrow> path \<Rightarrow> bool" where
  "descriptors_readable fs dirpath =
     (\<not> os_path_exists fs (os_path_join dirpath ''0.txt'') \<or>
      \<not> os_path_exists fs (os_path_join dirpath ''8.txt'') \<or>
      readable_file fs (os_path_join dirpath ''0.txt'') \<and>
      readable_file fs (os_path_join dirpath ''8.txt''))"

definition menu_tabs :: "path \<Rightarrow> string \<Rightarrow> path" where
  "menu_tabs root_dir dir_name = os_path_join (os_path_join root_dir dir_name) ''menuTabs''"

text \<open>
  The records one entry of the root contributes: the record of its \<open>menuTabs\<close>
  directory when both are directories and \<open>process_directory\<close> returns one.
\<close>

definition accepted_rows :: "'f libs \<Rightarrow> node \<Rightarrow> path \<Rightarrow> string \<Rightarrow> 'f pydict list" where
  "accepted_rows L fs root_dir dir_name =
     (if os_path_isdir fs (os_path_join root_dir dir_name) \<and> os_path_isdir fs (menu_tabs root_dir dir_name)
      then (case process_directory L fs (menu_tabs root_dir dir_name) of
              Inr (Some record) \<Rightarrow> [record]
            | _ \<Rightarrow> [])
      else [])"

section \<open>Example inputs\<close>

text \<open>
  The examples run the program with libraries given on the inputs the examples use.
  Floats are symbolic: \<open>FloatOf s\<close> is the float that \<open>float(s)\<close> returns, and
  \<open>Longitude e n\<close>, \<open>Latitude e n\<close> are the two numbers the transformer returns on
  \<open>(e, n)\<close>. \<open>float\<close> accepts the non-empty strings of ASCII digits, and
  \<open>ET.fromstring\<close> is tabulated on the example documents; every other text of the
  examples is the unclosed \<open><tab>\<close>, which it rejects.
\<close>

datatype sym_float = FloatOf string | Longitude sym_float sym_float | Latitude sym_float sym_float

definition spatial_doc :: string where
  \<open>spatial_doc = ''<tab><projection x="150000" y="250000"/></tab>''\<close>

definition spatial_abc_doc :: string where
  \<open>spatial_abc_doc = ''<tab><projection x="abc" y="250000"/></tab>''\<close>

definition spatial_no_x_doc :: string where
  \<open>spatial_no_x_doc = ''<tab><projection y="250000"/></tab>''\<close>

definition spatial_empty_doc :: string where
  \<open>spatial_empty_doc = ''<tab/>''\<close>

definition meta_doc :: string where
  \<open>meta_doc = ''<tab><name htmlText="Foo"/><translation htmlText="Bar"/><explanation htmlText="Baz"/></tab>''\<close>

definition meta_description_doc :: string where
  \<open>meta_description_doc = ''<tab><name htmlText="Foo"/><translation htmlText="Bar"/><description htmlText="Baz"/></tab>''\<close>

definition unclosed_doc :: string where
  \<open>unclosed_doc = ''<tab>''\<close>

definition meta_tree :: "string \<Rightarrow> element" where
  "meta_tree third =
     Element ''tab'' []
       [Element ''name'' [(''htmlText'', ''Foo'')] [],
        Element ''translation'' [(''htmlText'', ''Bar'')] [],
        Element third [(''htmlText'', ''Baz'')] []]"

definition example_fromstring :: "string \<Rightarrow> element option" where
  "example_fromstring =
     map_of
       [(spatial_doc, Element ''tab'' [] [Element ''projection'' [(''x'', ''150000''), (''y'', ''250000'')] []]),
        (spatial_abc_doc, Element ''tab'' [] [Element ''projection'' [(''x'', ''abc''), (''y'', ''250000'')] []]),
        (spatial_no_x_doc, Element ''tab'' [] [Element ''projection'' [(''y'', ''250000'')] []]),
        (spatial_empty_doc, Element ''tab'' [] []),
        (meta_doc, meta_tree ''explanation''),
        (meta_description_doc, meta_tree ''description'')]"

definition example_float :: "string \<Rightarrow> sym_float option" where
  "example_float s =
     (if s \<noteq> [] \<and> list_all (\<lambda>c. c \<in> set ''0123456789'') s then Some (FloatOf s) else None)"

definition example_libs :: "sym_float libs" where
  "example_libs =
     \<lparr>ET_fromstring = example_fromstring,
      py_float = example_float,
      Transformer_transform = (\<lambda>easting northing. Some (Longitude easting northing, Latitude easting northing))\<rparr>"

text \<open>A directory \<open>menuTabs\<close> with the two given nodes as \<open>0.txt\<close> and \<open>8.txt\<close>.\<close>

definition place :: "node \<Rightarrow> node \<Rightarrow> node" where
  "place n0 n8 = Directory [(''menuTabs'', Directory [(''0.txt'', n0), (''8.txt'', n8)])]"

text \<open>
  A corpus of three entries: a complete place, a place without \<open>8.txt\<close> and a plain
  file.
\<close>

definition example_corpus :: node where
  "example_corpus =
     Directory
       [(''ardmore'', place (RegFile spatial_doc) (RegFile meta_doc)),
        (''ballina'', Directory [(''menuTabs'', Directory [(''0.txt'', RegFile spatial_doc)])]),
        (''notes.txt'', RegFile ''notes'')]"

section \<open>Auxiliary facts\<close>

lemma fold_extract_elements:
  "fold (extract_element root) elements ([] :: 'f pydict) =
     [(''name'', Str (element_attr root ''name'' ''htmlText'')),
      (''translation'', Str (element_attr root ''translation'' ''htmlText'')),
      (''description'', Str (element_attr root ''explanation'' ''htmlText''))]"
  by (simp add: elements_def extract_element_def element_attr_def split: option.split)

lemma parse_8_txt_Some:
  "open_read fs p = Inr s \<Longrightarrow> ET_fromstring L s = Some root \<Longrightarrow>
   parse_8_txt L fs p = Inr (Some
     [(''name'', Str (element_attr root ''name'' ''htmlText'')),
      (''translation'', Str (element_attr root ''translation'' ''htmlText'')),
      (''description'', Str (element_attr root ''explanation'' ''htmlText''))])"
  by (simp add: parse_8_txt_def fold_extract_elements)

lemma parse_8_txt_None:
  "open_read fs p = Inr s \<Longrightarrow> ET_fromstring L s = None \<Longrightarrow> parse_8_txt L fs p = Inr None"
  by (simp add: parse_8_txt_def)

lemma parse_0_txt_None:
  "open_read fs p = Inr s \<Longrightarrow> ET_fromstring L s = None \<Longrightarrow> parse_0_txt L fs p = Inr None"
  by (simp add: parse_0_txt_def)

lemma parse_0_txt_no_projection:
  "open_read fs p = Inr s \<Longrightarrow> ET_fromstring L s = Some root \<Longrightarrow>
   Element_find root ''projection'' = None \<Longrightarrow>
   parse_0_txt L fs p = Inr (Some
     [(''projection_x'', Str ''''), (''projection_y'', Str ''''),
      (''latitude'', Str ''''), (''longitude'', Str '''')])"
  by (simp add: parse_0_txt_def)

lemma parse_0_txt_not_float:
  "open_read fs p = Inr s \<Longrightarrow> ET_fromstring L s = Some root \<Longrightarrow>
   Element_find root ''projection'' = Some projection_elem \<Longrightarrow>
   py_float L (Element_get projection_elem ''x'' '''') = None \<or>
   py_float L (Element_get projection_elem ''y'' '''') = None \<Longrightarrow>
   parse_0_txt L fs p = Inr (Some
     [(''projection_x'', Str (Element_get projection_elem ''x'' '''')),
      (''projection_y'', Str (Element_get projection_elem ''y'' '''')),
      (''latitude'', Str ''''), (''longitude'', Str '''')])"
  by (auto simp add: parse_0_txt_def no_coordinates_def Let_def split: option.split)

lemma parse_0_txt_keys:
  "parse_0_txt L fs p = Inr (Some r) \<Longrightarrow>
   map fst r = [''projection_x'', ''projection_y'', ''latitude'', ''longitude'']"
  by (auto simp add: parse_0_txt_def no_coordinates_def Let_def split: sum.splits option.splits)

lemma parse_8_txt_keys:
  "parse_8_txt L fs p = Inr (Some r) \<Longrightarrow> map fst r = [''name'', ''translation'', ''description'']"
  by (auto simp add: parse_8_txt_def fold_extract_elements split: sum.splits option.splits)

lemma dict_merge_keys:
  "map fst r0 = [''projection_x'', ''projection_y'', ''latitude'', ''longitude''] \<Longrightarrow>
   map fst r8 = [''name'', ''translation'', ''description''] \<Longrightarrow>
   map fst (dict_merge r0 r8) =
     [''projection_x'', ''projection_y'', ''latitude'', ''longitude'',
      ''name'', ''translation'', ''description'']"
  by (auto simp add: dict_merge_def map_eq_Cons_conv)

lemma open_read_readable:
  "readable_file fs p \<Longrightarrow> \<exists>s. open_read fs p = Inr s"
  by (auto simp add: readable_file_def open_read_def split: option.splits node.splits)

lemma parse_0_txt_returns:
  "readable_file fs p \<Longrightarrow> \<exists>r. parse_0_txt L fs p = Inr r"
  by (auto simp add: parse_0_txt_def no_coordinates_def Let_def
      dest!: open_read_readable split: sum.splits option.splits)

lemma parse_8_txt_returns:
  "readable_file fs p \<Longrightarrow> \<exists>r. parse_8_txt L fs p = Inr r"
  by (auto simp add: parse_8_txt_def dest!: open_read_readable split: sum.splits option.splits)

lemma process_directory_returns:
  assumes "descriptors_readable fs dirpath"
  shows "\<exists>r. process_directory L fs dirpath = Inr r"
proof (cases "os_path_exists fs (os_path_join dirpath ''0.txt'') \<and>
              os_path_exists fs (os_path_join dirpath ''8.txt'')")
  case False
  then show ?thesis by (auto simp add: process_directory_def Let_def)
next
  case True
  with assms have r0: "readable_file fs (os_path_join dirpath ''0.txt'')"
    and r8: "readable_file fs (os_path_join dirpath ''8.txt'')"
    by (auto simp add: descriptors_readable_def)
  from parse_0_txt_returns [OF r0] obtain a where a: "parse_0_txt L fs (os_path_join dirpath ''0.txt'') = Inr a"
    by blast
  from parse_8_txt_returns [OF r8] obtain b where b: "parse_8_txt L fs (os_path_join dirpath ''8.txt'') = Inr b"
    by blast
  from True a b show ?thesis
    by (simp add: process_directory_def Let_def split: option.split)
qed

lemma process_directory_missing:
  "\<not> os_path_exists fs (os_path_join dirpath ''0.txt'') \<or>
   \<not> os_path_exists fs (os_path_join dirpath ''8.txt'') \<Longrightarrow>
   process_directory L fs dirpath = Inr None"
  by (auto simp add: process_directory_def Let_def)

lemma walk_skip:
  "process_directory L fs (menu_tabs root_dir d) = Inr None \<Longrightarrow>
   walk L fs root_dir (d # rest) acc = walk L fs root_dir rest acc"
  by (simp add: Let_def menu_tabs_def)

lemma walk_accept:
  "os_path_isdir fs (os_path_join root_dir d) \<Longrightarrow> os_path_isdir fs (menu_tabs root_dir d) \<Longrightarrow>
   process_directory L fs (menu_tabs root_dir d) = Inr (Some r) \<Longrightarrow> r \<noteq> [] \<Longrightarrow>
   walk L fs root_dir (d # rest) acc = walk L fs root_dir rest (acc @ [r])"
  by (simp add: Let_def menu_tabs_def)

lemma open_read_exists: "open_read fs p = Inr s \<Longrightarrow> os_path_exists fs p"
  by (auto simp add: open_read_def os_path_exists_def split: option.splits)

lemma open_read_malformed:
  "malformed L fs p \<Longrightarrow> \<exists>s. open_read fs p = Inr s \<and> ET_fromstring L s = None"
  by (auto simp add: malformed_def open_read_def split: option.splits node.splits)

lemma process_directory_keys:
  assumes "process_directory L fs dirpath = Inr (Some record)"
  shows "map fst record =
     [''projection_x'', ''projection_y'', ''latitude'', ''longitude'',
      ''name'', ''translation'', ''description'']"
proof -
  from assms obtain r0 r8 where
    r0: "parse_0_txt L fs (os_path_join dirpath ''0.txt'') = Inr (Some r0)" and
    r8: "parse_8_txt L fs (os_path_join dirpath ''8.txt'') = Inr (Some r8)" and
    m: "record = dict_merge r0 r8"
    by (auto simp add: process_directory_def Let_def split: if_splits sum.splits option.splits)
  from dict_merge_keys [OF parse_0_txt_keys [OF r0] parse_8_txt_keys [OF r8]] m
  show ?thesis by simp
qed

lemma process_directory_malformed:
  assumes "malformed L fs (os_path_join dirpath ''0.txt'') \<and>
             (\<not> os_path_exists fs (os_path_join dirpath ''8.txt'') \<or>
              readable_file fs (os_path_join dirpath ''8.txt'')) \<or>
           malformed L fs (os_path_join dirpath ''8.txt'') \<and>
             (\<not> os_path_exists fs (os_path_join dirpath ''0.txt'') \<or>
              readable_file fs (os_path_join dirpath ''0.txt''))"
  shows "process_directory L fs dirpath = Inr None"
proof (cases "os_path_exists fs (os_path_join dirpath ''0.txt'') \<and>
              os_path_exists fs (os_path_join dirpath ''8.txt'')")
  case False
  then show ?thesis by (auto simp add: process_directory_def Let_def)
next
  case True
  with assms consider
      (first) "malformed L fs (os_path_join dirpath ''0.txt'')"
        "readable_file fs (os_path_join dirpath ''8.txt'')"
    | (second) "malformed L fs (os_path_join dirpath ''8.txt'')"
        "readable_file fs (os_path_join dirpath ''0.txt'')"
    by auto
  then show ?thesis
  proof cases
    case first
    from parse_8_txt_returns [OF first(2)] obtain b where
      b: "parse_8_txt L fs (os_path_join dirpath ''8.txt'') = Inr b" by blast
    from open_read_malformed [OF first(1)] have
      "parse_0_txt L fs (os_path_join dirpath ''0.txt'') = Inr None"
      by (auto simp add: parse_0_txt_None)
    with True b show ?thesis by (simp add: process_directory_def Let_def)
  next
    case second
    from parse_0_txt_returns [OF second(2)] obtain a where
      a: "parse_0_txt L fs (os_path_join dirpath ''0.txt'') = Inr a" by blast
    from open_read_malformed [OF second(1)] have
      "parse_8_txt L fs (os_path_join dirpath ''8.txt'') = Inr None"
      by (auto simp add: parse_8_txt_None)
    with True a show ?thesis by (simp add: process_directory_def Let_def split: option.split)
  qed
qed

lemma lookup_parent:
  "lookup fs (p @ [c]) = Some n \<Longrightarrow> \<exists>es. lookup fs p = Some (Directory es)"
proof (induction p arbitrary: fs)
  case Nil
  then show ?case by (cases fs) simp_all
next
  case (Cons a p)
  then show ?case by (cases fs) (auto split: option.splits)
qed

lemma exists_parent_isdir:
  "os_path_exists fs (os_path_join p c) \<Longrightarrow> os_path_isdir fs p"
  by (auto simp add: os_path_exists_def os_path_join_def os_path_isdir_def
      split: option.splits dest!: lookup_parent)

lemma isdir_exists: "os_path_isdir fs p \<Longrightarrow> os_path_exists fs p"
  by (auto simp add: os_path_exists_def os_path_isdir_def split: option.splits node.splits)

lemma process_directory_Some_exists:
  "process_directory L fs dirpath = Inr (Some record) \<Longrightarrow>
   os_path_exists fs (os_path_join dirpath ''0.txt'')"
  by (auto simp add: process_directory_def Let_def split: if_splits)

lemma process_directory_Some_isdir:
  assumes "process_directory L fs (menu_tabs root_dir d) = Inr (Some record)"
  shows "os_path_isdir fs (menu_tabs root_dir d) \<and> os_path_isdir fs (os_path_join root_dir d)"
proof -
  from process_directory_Some_exists [OF assms]
  have m: "os_path_isdir fs (menu_tabs root_dir d)" by (rule exists_parent_isdir)
  from isdir_exists [OF m] have "os_path_isdir fs (os_path_join root_dir d)"
    unfolding menu_tabs_def by (rule exists_parent_isdir)
  with m show ?thesis by simp
qed

lemma process_directory_nonempty:
  "process_directory L fs dirpath = Inr (Some record) \<Longrightarrow> record \<noteq> []"
  by (auto dest: process_directory_keys)

lemma walk_step_rows:
  assumes "process_directory L fs (menu_tabs root_dir d) = Inr r"
  shows "walk L fs root_dir (d # rest) acc =
         walk L fs root_dir rest (acc @ accepted_rows L fs root_dir d)"
proof (cases r)
  case None
  with assms show ?thesis
    by (simp add: accepted_rows_def Let_def menu_tabs_def)
next
  case (Some rcd)
  with assms have pd: "process_directory L fs (menu_tabs root_dir d) = Inr (Some rcd)" by simp
  from process_directory_Some_isdir [OF pd] process_directory_nonempty [OF pd] pd
  have "accepted_rows L fs root_dir d = [rcd]" and "rcd \<noteq> []"
    and "os_path_isdir fs (menu_tabs root_dir d)" and "os_path_isdir fs (os_path_join root_dir d)"
    by (simp_all add: accepted_rows_def)
  with pd walk_accept [of fs root_dir d L _ rest acc] show ?thesis
    by (simp del: walk.simps)
qed

lemma walk_rows:
  "\<forall>d\<in>set names. descriptors_readable fs (menu_tabs root_dir d) \<Longrightarrow>
   walk L fs root_dir names acc = Inr (acc @ concat (map (accepted_rows L fs root_dir) names))"
proof (induction names arbitrary: acc)
  case Nil
  then show ?case by simp
next
  case (Cons d names)
  from Cons.prems have "descriptors_readable fs (menu_tabs root_dir d)" by simp
  from process_directory_returns [OF this]
  obtain r where r: "process_directory L fs (menu_tabs root_dir d) = Inr r" by blast
  from Cons.prems have rest: "\<forall>d\<in>set names. descriptors_readable fs (menu_tabs root_dir d)" by simp
  from walk_step_rows [OF r] Cons.IH [OF rest] show ?case
    by (simp del: walk.simps)
qed

section \<open>The metadata descriptor\<close>

text \<open>
  C1 (as amended). For every metadata descriptor that can be read and parses, the
  parser returns a record whose \<open>name\<close> and \<open>translation\<close> are the \<open>htmlText\<close>
  attributes of the top-level elements of those names, and whose \<open>description\<close> is
  the \<open>htmlText\<close> attribute of the top-level element named \<open>explanation\<close>; each is
  the empty string when the element or the attribute is absent. The tuple list of the
  code is (name, name, htmlText), (translation, translation, htmlText),
  (explanation, description, htmlText).
\<close>

theorem parse_8_txt_fields:
  assumes "open_read fs file_path = Inr xml_content"
    and "ET_fromstring L xml_content = Some root"
  shows "\<exists>record. parse_8_txt L fs file_path = Inr (Some record) \<and>
           map_of record ''name'' = Some (Str (element_attr root ''name'' ''htmlText'')) \<and>
           map_of record ''translation'' = Some (Str (element_attr root ''translation'' ''htmlText'')) \<and>
           map_of record ''description'' = Some (Str (element_attr root ''explanation'' ''htmlText''))"
  using parse_8_txt_Some [OF assms] by simp

text \<open>
  The same on the example descriptor, whose \<open>explanation\<close> element carries \<open>Baz\<close>.
\<close>

theorem parse_8_txt_fields_witness:
  "open_read (place (RegFile spatial_doc) (RegFile meta_doc)) [''menuTabs'', ''8.txt''] = Inr meta_doc \<and>
   ET_fromstring example_libs meta_doc = Some (meta_tree ''explanation'') \<and>
   (\<exists>record. parse_8_txt example_libs (place (RegFile spatial_doc) (RegFile meta_doc))
        [''menuTabs'', ''8.txt''] = Inr (Some record) \<and>
      map_of record ''description'' = Some (Str ''Baz''))"
proof -
  have h1: "open_read (place (RegFile spatial_doc) (RegFile meta_doc)) [''menuTabs'', ''8.txt''] = Inr meta_doc"
    by code_simp
  have h2: "ET_fromstring example_libs meta_doc = Some (meta_tree ''explanation'')"
    by code_simp
  have v: "element_attr (meta_tree ''explanation'') ''explanation'' ''htmlText'' = ''Baz''"
    by code_simp
  from parse_8_txt_fields [OF h1 h2] v h1 h2 show ?thesis by auto
qed

text \<open>
  C1 as stated reads \<open>description\<close> from the element named \<open>description\<close>. A
  descriptor with \<open><description htmlText="Baz"/>\<close> and no \<open>explanation\<close> element
  gets the empty string.
\<close>

theorem parse_8_txt_description_counterexample:
  "ET_fromstring example_libs meta_description_doc = Some (meta_tree ''description'') \<and>
   element_attr (meta_tree ''description'') ''description'' ''htmlText'' = ''Baz'' \<and>
   parse_8_txt example_libs (place (RegFile spatial_doc) (RegFile meta_description_doc))
       [''menuTabs'', ''8.txt''] =
     Inr (Some [(''name'', Str ''Foo''), (''translation'', Str ''Bar''), (''description'', Str '''')])"
  by code_simp

section \<open>The spatial descriptor\<close>

text \<open>
  C4. When the \<open>projection\<close> element is present and \<open>float\<close> rejects its \<open>x\<close> or its
  \<open>y\<close> attribute, the record has the empty string as \<open>latitude\<close> and as
  \<open>longitude\<close>, and \<open>projection_x\<close> and \<open>projection_y\<close> are the attribute strings
  as they were read.
\<close>

theorem parse_0_txt_not_numeric:
  assumes "open_read fs file_path = Inr xml_content"
    and "ET_fromstring L xml_content = Some root"
    and "Element_find root ''projection'' = Some projection_elem"
    and "py_float L (Element_get projection_elem ''x'' '''') = None \<or>
         py_float L (Element_get projection_elem ''y'' '''') = None"
  shows "\<exists>record. parse_0_txt L fs file_path = Inr (Some record) \<and>
           map_of record ''latitude'' = Some (Str '''') \<and>
           map_of record ''longitude'' = Some (Str '''') \<and>
           map_of record ''projection_x'' = Some (Str (Element_get projection_elem ''x'' '''')) \<and>
           map_of record ''projection_y'' = Some (Str (Element_get projection_elem ''y'' ''''))"
  using parse_0_txt_not_float [OF assms] by simp

text \<open>
  The same on the example descriptor with \<open>x="abc"\<close>: \<open>projection_x\<close> stays \<open>abc\<close>.
\<close>

theorem parse_0_txt_not_numeric_witness:
  "open_read (place (RegFile spatial_abc_doc) (RegFile meta_doc)) [''menuTabs'', ''0.txt''] = Inr spatial_abc_doc \<and>
   ET_fromstring example_libs spatial_abc_doc =
     Some (Element ''tab'' [] [Element ''projection'' [(''x'', ''abc''), (''y'', ''250000'')] []]) \<and>
   Element_find (Element ''tab'' [] [Element ''projection'' [(''x'', ''abc''), (''y'', ''250000'')] []]) ''projection'' =
     Some (Element ''projection'' [(''x'', ''abc''), (''y'', ''250000'')] []) \<and>
   py_float example_libs ''abc'' = None \<and>
   (\<exists>record. parse_0_txt example_libs (place (RegFile spatial_abc_doc) (RegFile meta_doc))
        [''menuTabs'', ''0.txt''] = Inr (Some record) \<and>
      map_of record ''latitude'' = Some (Str '''') \<and>
      map_of record ''longitude'' = Some (Str '''') \<and>
      map_of record ''projection_x'' = Some (Str ''abc'') \<and>
      map_of record ''projection_y'' = Some (Str ''250000''))"
proof -
  have h1: "open_read (place (RegFile spatial_abc_doc) (RegFile meta_doc)) [''menuTabs'', ''0.txt''] = Inr spatial_abc_doc"
    by code_simp
  have h2: "ET_fromstring example_libs spatial_abc_doc =
      Some (Element ''tab'' [] [Element ''projection'' [(''x'', ''abc''), (''y'', ''250000'')] []])"
    by code_simp
  have h3: "Element_find (Element ''tab'' [] [Element ''projection'' [(''x'', ''abc''), (''y'', ''250000'')] []]) ''projection'' =
      Some (Element ''projection'' [(''x'', ''abc''), (''y'', ''250000'')] [])"
    by code_simp
  have gx: "Element_get (Element ''projection'' [(''x'', ''abc''), (''y'', ''250000'')] []) ''x'' '''' = ''abc''"
    by code_simp
  have gy: "Element_get (Element ''projection'' [(''x'', ''abc''), (''y'', ''250000'')] []) ''y'' '''' = ''250000''"
    by code_simp
  have f: "py_float example_libs ''abc'' = None"
    by code_simp
  have h4: "py_float example_libs (Element_get (Element ''projection'' [(''x'', ''abc''), (''y'', ''250000'')] []) ''x'' '''') = None \<or>
            py_float example_libs (Element_get (Element ''projection'' [(''x'', ''abc''), (''y'', ''250000'')] []) ''y'' '''') = None"
    using f gx by simp
  from parse_0_txt_not_numeric [OF h1 h2 h3 h4] h1 h2 h3 f gx gy show ?thesis by simp
qed

text \<open>
  C10. When the \<open>projection\<close> element is present and lacks the \<open>x\<close> or the \<open>y\<close>
  attribute, the missing attribute reads as the empty string, its conversion fails,
  and the parser still returns a record: that projection field, \<open>latitude\<close> and
  \<open>longitude\<close> are the empty string. Python's \<open>float\<close> raises \<open>ValueError\<close> on the
  empty string; the library parameter is taken to do the same.
\<close>

theorem parse_0_txt_missing_attribute:
  assumes "open_read fs file_path = Inr xml_content"
    and "ET_fromstring L xml_content = Some root"
    and "Element_find root ''projection'' = Some projection_elem"
    and "map_of (attrib projection_elem) ''x'' = None \<or> map_of (attrib projection_elem) ''y'' = None"
    and "py_float L '''' = None"
  shows "\<exists>record. parse_0_txt L fs file_path = Inr (Some record) \<and>
           (map_of (attrib projection_elem) ''x'' = None \<longrightarrow>
              Element_get projection_elem ''x'' '''' = '''' \<and>
              py_float L (Element_get projection_elem ''x'' '''') = None \<and>
              map_of record ''projection_x'' = Some (Str '''')) \<and>
           (map_of (attrib projection_elem) ''y'' = None \<longrightarrow>
              Element_get projection_elem ''y'' '''' = '''' \<and>
              py_float L (Element_get projection_elem ''y'' '''') = None \<and>
              map_of record ''projection_y'' = Some (Str '''')) \<and>
           map_of record ''latitude'' = Some (Str '''') \<and>
           map_of record ''longitude'' = Some (Str '''')"
proof -
  from assms(4,5) have
    "py_float L (Element_get projection_elem ''x'' '''') = None \<or>
     py_float L (Element_get projection_elem ''y'' '''') = None"
    by (auto simp add: Element_get_def)
  from parse_0_txt_not_float [OF assms(1-3) this] assms(5) show ?thesis
    by (auto simp add: Element_get_def)
qed

text \<open>
  The same on the example descriptor whose \<open>projection\<close> has no \<open>x\<close>.
\<close>

theorem parse_0_txt_missing_attribute_witness:
  "open_read (place (RegFile spatial_no_x_doc) (RegFile meta_doc)) [''menuTabs'', ''0.txt''] = Inr spatial_no_x_doc \<and>
   ET_fromstring example_libs spatial_no_x_doc =
     Some (Element ''tab'' [] [Element ''projection'' [(''y'', ''250000'')] []]) \<and>
   Element_find (Element ''tab'' [] [Element ''projection'' [(''y'', ''250000'')] []]) ''projection'' =
     Some (Element ''projection'' [(''y'', ''250000'')] []) \<and>
   map_of (attrib (Element ''projection'' [(''y'', ''250000'')] [])) ''x'' = None \<and>
   py_float example_libs '''' = None \<and>
   (\<exists>record. parse_0_txt example_libs (place (RegFile spatial_no_x_doc) (RegFile meta_doc))
        [''menuTabs'', ''0.txt''] = Inr (Some record) \<and>
      map_of record ''projection_x'' = Some (Str '''') \<and>
      map_of record ''latitude'' = Some (Str '''') \<and>
      map_of record ''longitude'' = Some (Str ''''))"
proof -
  have h1: "open_read (place (RegFile spatial_no_x_doc) (RegFile meta_doc)) [''menuTabs'', ''0.txt''] = Inr spatial_no_x_doc"
    by code_simp
  have h2: "ET_fromstring example_libs spatial_no_x_doc =
      Some (Element ''tab'' [] [Element ''projection'' [(''y'', ''250000'')] []])"
    by code_simp
  have h3: "Element_find (Element ''tab'' [] [Element ''projection'' [(''y'', ''250000'')] []]) ''projection'' =
      Some (Element ''projection'' [(''y'', ''250000'')] [])"
    by code_simp
  have h4: "map_of (attrib (Element ''projection'' [(''y'', ''250000'')] [])) ''x'' = None"
    by simp
  have h4': "map_of (attrib (Element ''projection'' [(''y'', ''250000'')] [])) ''x'' = None \<or>
             map_of (attrib (Element ''projection'' [(''y'', ''250000'')] [])) ''y'' = None"
    using h4 by simp
  have h5: "py_float example_libs '''' = None"
    by code_simp
  from parse_0_txt_missing_attribute [OF h1 h2 h3 h4' h5] h1 h2 h3 h4 h5 show ?thesis
    by auto
qed

section \<open>The directory record builder\<close>

text \<open>
  C5. When both descriptors can be read and parse, and the spatial descriptor has no
  top-level \<open>projection\<close> element, \<open>process_directory\<close> returns a record: the four
  spatial fields are the empty string and \<open>name\<close>, \<open>translation\<close>, \<open>description\<close> are
  the values read from the second descriptor. Its CSV row has the same seven cells.
\<close>

theorem process_directory_no_projection:
  assumes "open_read fs (os_path_join dirpath ''0.txt'') = Inr xml_0"
    and "ET_fromstring L xml_0 = Some root_0"
    and "Element_find root_0 ''projection'' = None"
    and "open_read fs (os_path_join dirpath ''8.txt'') = Inr xml_8"
    and "ET_fromstring L xml_8 = Some root_8"
  shows "\<exists>record. process_directory L fs dirpath = Inr (Some record) \<and>
           record =
             [(''projection_x'', Str ''''), (''projection_y'', Str ''''),
              (''latitude'', Str ''''), (''longitude'', Str ''''),
              (''name'', Str (element_attr root_8 ''name'' ''htmlText'')),
              (''translation'', Str (element_attr root_8 ''translation'' ''htmlText'')),
              (''description'', Str (element_attr root_8 ''explanation'' ''htmlText''))] \<and>
           csv_row csv_columns record =
             [Str '''', Str '''', Str '''', Str '''',
              Str (element_attr root_8 ''name'' ''htmlText''),
              Str (element_attr root_8 ''translation'' ''htmlText''),
              Str (element_attr root_8 ''explanation'' ''htmlText'')]"
  using parse_0_txt_no_projection [OF assms(1-3)] parse_8_txt_Some [OF assms(4,5)]
    open_read_exists [OF assms(1)] open_read_exists [OF assms(4)]
  by (simp add: process_directory_def Let_def dict_merge_def csv_row_def csv_columns_def dict_get_def)

text \<open>
  The same on a place whose spatial descriptor is the empty element \<open><tab/>\<close>.
\<close>

theorem process_directory_no_projection_witness:
  "open_read (place (RegFile spatial_empty_doc) (RegFile meta_doc)) (os_path_join [''menuTabs''] ''0.txt'') = Inr spatial_empty_doc \<and>
   ET_fromstring example_libs spatial_empty_doc = Some (Element ''tab'' [] []) \<and>
   Element_find (Element ''tab'' [] []) ''projection'' = None \<and>
   open_read (place (RegFile spatial_empty_doc) (RegFile meta_doc)) (os_path_join [''menuTabs''] ''8.txt'') = Inr meta_doc \<and>
   ET_fromstring example_libs meta_doc = Some (meta_tree ''explanation'') \<and>
   process_directory example_libs (place (RegFile spatial_empty_doc) (RegFile meta_doc)) [''menuTabs''] =
     Inr (Some [(''projection_x'', Str ''''), (''projection_y'', Str ''''),
                (''latitude'', Str ''''), (''longitude'', Str ''''),
                (''name'', Str ''Foo''), (''translation'', Str ''Bar''), (''description'', Str ''Baz'')])"
proof -
  have h1: "open_read (place (RegFile spatial_empty_doc) (RegFile meta_doc)) (os_path_join [''menuTabs''] ''0.txt'') = Inr spatial_empty_doc"
    by code_simp
  have h2: "ET_fromstring example_libs spatial_empty_doc = Some (Element ''tab'' [] [])"
    by code_simp
  have h3: "Element_find (Element ''tab'' [] []) ''projection'' = None"
    by code_simp
  have h4: "open_read (place (RegFile spatial_empty_doc) (RegFile meta_doc)) (os_path_join [''menuTabs''] ''8.txt'') = Inr meta_doc"
    by code_simp
  have h5: "ET_fromstring example_libs meta_doc = Some (meta_tree ''explanation'')"
    by code_simp
  have v: "element_attr (meta_tree ''explanation'') ''name'' ''htmlText'' = ''Foo''"
    "element_attr (meta_tree ''explanation'') ''translation'' ''htmlText'' = ''Bar''"
    "element_attr (meta_tree ''explanation'') ''explanation'' ''htmlText'' = ''Baz''"
    by code_simp+
  from process_directory_no_projection [OF h1 h2 h3 h4 h5] h1 h2 h3 h4 h5 v show ?thesis
    by simp
qed

text \<open>
  C6 (as amended). When the path \<open>0.txt\<close> or the path \<open>8.txt\<close> does not exist in the
  directory, \<open>process_directory\<close> returns no record and the walker goes on with the
  accumulated list unchanged: the directory contributes no row. The presence check
  is \<open>os.path.exists\<close>, which a directory or an unreadable file of that name passes.
\<close>

theorem process_directory_missing_file:
  assumes "\<not> os_path_exists fs (os_path_join (menu_tabs root_dir dir_name) ''0.txt'') \<or>
           \<not> os_path_exists fs (os_path_join (menu_tabs root_dir dir_name) ''8.txt'')"
  shows "process_directory L fs (menu_tabs root_dir dir_name) = Inr None \<and>
         walk L fs root_dir (dir_name # rest) data_list = walk L fs root_dir rest data_list"
proof -
  have pd: "process_directory L fs (menu_tabs root_dir dir_name) = Inr None"
    using assms by (rule process_directory_missing)
  from pd walk_skip [OF pd] show ?thesis by (simp del: walk.simps)
qed

text \<open>
  The same on the example corpus, where \<open>ballina\<close> has no \<open>8.txt\<close>.
\<close>

theorem process_directory_missing_file_witness:
  "\<not> os_path_exists example_corpus (os_path_join (menu_tabs [] ''ballina'') ''8.txt'') \<and>
   process_directory example_libs example_corpus (menu_tabs [] ''ballina'') = Inr None \<and>
   walk example_libs example_corpus [] [''ballina'', ''notes.txt''] [] = Inr []"
proof -
  have h: "\<not> os_path_exists example_corpus (os_path_join (menu_tabs [] ''ballina'') ''8.txt'')"
    by code_simp
  then have h': "\<not> os_path_exists example_corpus (os_path_join (menu_tabs [] ''ballina'') ''0.txt'') \<or>
                 \<not> os_path_exists example_corpus (os_path_join (menu_tabs [] ''ballina'') ''8.txt'')"
    by simp
  have w: "walk example_libs example_corpus [] [''notes.txt''] [] = Inr []"
    by code_simp
  from process_directory_missing_file [OF h', of example_libs "[''notes.txt'']" "[]"] h w
  show ?thesis by (simp del: walk.simps)
qed

text \<open>
  C6 as stated makes the presence check a check for regular files. A directory named
  \<open>0.txt\<close> is not a regular file, yet it passes the check; \<open>process_directory\<close> then
  does not return no-record: \<open>open\<close> raises \<open>IsADirectoryError\<close>.
\<close>

theorem process_directory_directory_as_descriptor_counterexample:
  "\<not> regular_file (place (Directory []) (RegFile meta_doc)) [''menuTabs'', ''0.txt''] \<and>
   os_path_exists (place (Directory []) (RegFile meta_doc)) [''menuTabs'', ''0.txt''] \<and>
   process_directory example_libs (place (Directory []) (RegFile meta_doc)) [''menuTabs''] =
     Inl IsADirectoryError"
  by code_simp

text \<open>
  C3 (as amended). When \<open>0.txt\<close> or \<open>8.txt\<close> is a readable file that does not parse,
  and the other descriptor path is absent or a readable regular file, the parser of
  the malformed file returns no record, \<open>process_directory\<close> returns no record, and the
  walker goes on to the remaining directories with the accumulated list unchanged.
\<close>

theorem malformed_directory_skipped:
  assumes "malformed L fs (os_path_join (menu_tabs root_dir dir_name) ''0.txt'') \<and>
             (\<not> os_path_exists fs (os_path_join (menu_tabs root_dir dir_name) ''8.txt'') \<or>
              readable_file fs (os_path_join (menu_tabs root_dir dir_name) ''8.txt'')) \<or>
           malformed L fs (os_path_join (menu_tabs root_dir dir_name) ''8.txt'') \<and>
             (\<not> os_path_exists fs (os_path_join (menu_tabs root_dir dir_name) ''0.txt'') \<or>
              readable_file fs (os_path_join (menu_tabs root_dir dir_name) ''0.txt''))"
  shows "(malformed L fs (os_path_join (menu_tabs root_dir dir_name) ''0.txt'') \<longrightarrow>
            parse_0_txt L fs (os_path_join (menu_tabs root_dir dir_name) ''0.txt'') = Inr None) \<and>
         (malformed L fs (os_path_join (menu_tabs root_dir dir_name) ''8.txt'') \<longrightarrow>
            parse_8_txt L fs (os_path_join (menu_tabs root_dir dir_name) ''8.txt'') = Inr None) \<and>
         process_directory L fs (menu_tabs root_dir dir_name) = Inr None \<and>
         walk L fs root_dir (dir_name # rest) data_list = walk L fs root_dir rest data_list"
proof -
  have p0: "malformed L fs (os_path_join (menu_tabs root_dir dir_name) ''0.txt'') \<longrightarrow>
            parse_0_txt L fs (os_path_join (menu_tabs root_dir dir_name) ''0.txt'') = Inr None"
    by (auto dest!: open_read_malformed simp add: parse_0_txt_None)
  have p8: "malformed L fs (os_path_join (menu_tabs root_dir dir_name) ''8.txt'') \<longrightarrow>
            parse_8_txt L fs (os_path_join (menu_tabs root_dir dir_name) ''8.txt'') = Inr None"
    by (auto dest!: open_read_malformed simp add: parse_8_txt_None)
  have pd: "process_directory L fs (menu_tabs root_dir dir_name) = Inr None"
    using assms by (rule process_directory_malformed)
  from p0 p8 pd walk_skip [OF pd] show ?thesis by (simp del: walk.simps)
qed

text \<open>
  The same on a corpus whose first place has an unclosed \<open>8.txt\<close>: the second place
  still gives its row.
\<close>

theorem malformed_directory_skipped_witness:
  "malformed example_libs
     (Directory [(''ardmore'', place (RegFile spatial_doc) (RegFile unclosed_doc)),
                 (''ballina'', place (RegFile spatial_doc) (RegFile meta_doc))])
     (os_path_join (menu_tabs [] ''ardmore'') ''8.txt'') \<and>
   readable_file
     (Directory [(''ardmore'', place (RegFile spatial_doc) (RegFile unclosed_doc)),
                 (''ballina'', place (RegFile spatial_doc) (RegFile meta_doc))])
     (os_path_join (menu_tabs [] ''ardmore'') ''0.txt'') \<and>
   process_directory example_libs
     (Directory [(''ardmore'', place (RegFile spatial_doc) (RegFile unclosed_doc)),
                 (''ballina'', place (RegFile spatial_doc) (RegFile meta_doc))])
     (menu_tabs [] ''ardmore'') = Inr None \<and>
   walk example_libs
     (Directory [(''ardmore'', place (RegFile spatial_doc) (RegFile unclosed_doc)),
                 (''ballina'', place (RegFile spatial_doc) (RegFile meta_doc))])
     [] [''ardmore'', ''ballina''] [] =
     Inr [[(''projection_x'', Str ''150000''), (''projection_y'', Str ''250000''),
                 (''latitude'', Flt (Latitude (FloatOf ''150000'') (FloatOf ''250000''))),
                 (''longitude'', Flt (Longitude (FloatOf ''150000'') (FloatOf ''250000''))),
                 (''name'', Str ''Foo''), (''translation'', Str ''Bar''), (''description'', Str ''Baz'')]]"
proof -
  let ?fs = "Directory [(''ardmore'', place (RegFile spatial_doc) (RegFile unclosed_doc)),
                 (''ballina'', place (RegFile spatial_doc) (RegFile meta_doc))]"
  have m: "malformed example_libs ?fs (os_path_join (menu_tabs [] ''ardmore'') ''8.txt'')"
    by code_simp
  have r: "readable_file ?fs (os_path_join (menu_tabs [] ''ardmore'') ''0.txt'')"
    by code_simp
  have w: "walk example_libs ?fs [] [''ballina''] [] =
     Inr [[(''projection_x'', Str ''150000''), (''projection_y'', Str ''250000''),
                 (''latitude'', Flt (Latitude (FloatOf ''150000'') (FloatOf ''250000''))),
                 (''longitude'', Flt (Longitude (FloatOf ''150000'') (FloatOf ''250000''))),
                 (''name'', Str ''Foo''), (''translation'', Str ''Bar''), (''description'', Str ''Baz'')]]"
    by code_simp
  from m r have h: "malformed example_libs ?fs (os_path_join (menu_tabs [] ''ardmore'') ''0.txt'') \<and>
             (\<not> os_path_exists ?fs (os_path_join (menu_tabs [] ''ardmore'') ''8.txt'') \<or>
              readable_file ?fs (os_path_join (menu_tabs [] ''ardmore'') ''8.txt'')) \<or>
           malformed example_libs ?fs (os_path_join (menu_tabs [] ''ardmore'') ''8.txt'') \<and>
             (\<not> os_path_exists ?fs (os_path_join (menu_tabs [] ''ardmore'') ''0.txt'') \<or>
              readable_file ?fs (os_path_join (menu_tabs [] ''ardmore'') ''0.txt''))"
    by simp
  from malformed_directory_skipped [OF h, of "[''ballina'']" "[]"] m r w show ?thesis
    by (simp del: walk.simps)
qed

text \<open>
  C3 as stated covers every directory with a malformed descriptor. Where \<open>0.txt\<close> is
  malformed and \<open>8.txt\<close> exists but cannot be read, \<open>parse_8_txt\<close> is still called,
  \<open>open\<close> raises, and the walker stops before the next place.
\<close>

theorem process_directory_malformed_unreadable_counterexample:
  "malformed example_libs
     (Directory [(''ardmore'', place (RegFile unclosed_doc) Unreadable),
                 (''ballina'', place (RegFile spatial_doc) (RegFile meta_doc))])
     [''ardmore'', ''menuTabs'', ''0.txt''] \<and>
   process_directory example_libs
     (Directory [(''ardmore'', place (RegFile unclosed_doc) Unreadable),
                 (''ballina'', place (RegFile spatial_doc) (RegFile meta_doc))])
     [''ardmore'', ''menuTabs''] = Inl PermissionError \<and>
   walk example_libs
     (Directory [(''ardmore'', place (RegFile unclosed_doc) Unreadable),
                 (''ballina'', place (RegFile spatial_doc) (RegFile meta_doc))])
     [] [''ardmore'', ''ballina''] [] = Inl PermissionError"
  by code_simp

text \<open>
  C9. A record that \<open>process_directory\<close> returns has exactly the seven keys
  \<open>projection_x\<close>, \<open>projection_y\<close>, \<open>latitude\<close>, \<open>longitude\<close>, \<open>name\<close>,
  \<open>translation\<close>, \<open>description\<close>, so it is not empty; the truth test of the walker
  on the returned value is the test that it is not \<open>None\<close>, and the walker appends
  every returned record.
\<close>

theorem process_directory_seven_keys:
  assumes "process_directory L fs dirpath = Inr result"
  shows "truthy result = (result \<noteq> None) \<and>
         (\<forall>record. result = Some record \<longrightarrow>
            map fst record =
              [''projection_x'', ''projection_y'', ''latitude'', ''longitude'',
               ''name'', ''translation'', ''description''] \<and>
            record \<noteq> [] \<and>
            (dirpath = menu_tabs root_dir dir_name \<longrightarrow>
               walk L fs root_dir (dir_name # rest) data_list =
                 walk L fs root_dir rest (data_list @ [record])))"
proof (cases result)
  case None
  then show ?thesis by simp
next
  case (Some rcd)
  with assms have pd: "process_directory L fs dirpath = Inr (Some rcd)"
    by simp
  have "walk L fs root_dir (dir_name # rest) data_list = walk L fs root_dir rest (data_list @ [rcd])"
    if m: "dirpath = menu_tabs root_dir dir_name"
  proof -
    from pd m have pd': "process_directory L fs (menu_tabs root_dir dir_name) = Inr (Some rcd)"
      by simp
    from process_directory_Some_isdir [OF pd'] show ?thesis
      using walk_accept [OF _ _ pd' process_directory_nonempty [OF pd']] by blast
  qed
  with Some process_directory_keys [OF pd] process_directory_nonempty [OF pd] show ?thesis
    by (simp del: walk.simps)
qed

text \<open>
  The same on the complete place of the example corpus.
\<close>

theorem process_directory_seven_keys_witness:
  "process_directory example_libs example_corpus (menu_tabs [] ''ardmore'') =
     Inr (Some [(''projection_x'', Str ''150000''), (''projection_y'', Str ''250000''),
        (''latitude'', Flt (Latitude (FloatOf ''150000'') (FloatOf ''250000''))),
        (''longitude'', Flt (Longitude (FloatOf ''150000'') (FloatOf ''250000''))),
        (''name'', Str ''Foo''), (''translation'', Str ''Bar''), (''description'', Str ''Baz'')]) \<and>
   truthy (Some [(''projection_x'', Str ''150000''), (''projection_y'', Str ''250000''),
        (''latitude'', Flt (Latitude (FloatOf ''150000'') (FloatOf ''250000''))),
        (''longitude'', Flt (Longitude (FloatOf ''150000'') (FloatOf ''250000''))),
        (''name'', Str ''Foo''), (''translation'', Str ''Bar''), (''description'', Str ''Baz'')]) \<and>
   walk example_libs example_corpus [] [''ardmore''] [] =
     Inr [[(''projection_x'', Str ''150000''), (''projection_y'', Str ''250000''),
        (''latitude'', Flt (Latitude (FloatOf ''150000'') (FloatOf ''250000''))),
        (''longitude'', Flt (Longitude (FloatOf ''150000'') (FloatOf ''250000''))),
        (''name'', Str ''Foo''), (''translation'', Str ''Bar''), (''description'', Str ''Baz'')]]"
proof -
  have h: "process_directory example_libs example_corpus (menu_tabs [] ''ardmore'') =
     Inr (Some [(''projection_x'', Str ''150000''), (''projection_y'', Str ''250000''),
        (''latitude'', Flt (Latitude (FloatOf ''150000'') (FloatOf ''250000''))),
        (''longitude'', Flt (Longitude (FloatOf ''150000'') (FloatOf ''250000''))),
        (''name'', Str ''Foo''), (''translation'', Str ''Bar''), (''description'', Str ''Baz'')])"
    by code_simp
  from process_directory_seven_keys [OF h, where root_dir = "[]" and dir_name = "''ardmore''"
      and rest = "[]" and data_list = "[]"] h show ?thesis
    by (simp del: walk.simps add: walk.simps(1))
qed

section \<open>The exporter and the whole run\<close>

text \<open>
  C7. When the file can be written, \<open>write_csv\<close> with the seven columns of \<open>main\<close>
  writes the header row \<open>projection_x\<close>, \<open>projection_y\<close>, \<open>latitude\<close>, \<open>longitude\<close>,
  \<open>name\<close>, \<open>translation\<close>, \<open>description\<close> and then one row per record, each cell
  looked up by column name with the empty string as default; \<open>main\<close> calls it with
  these columns on the list the walker built.
\<close>

theorem write_csv_rows:
  assumes "io_ok"
  shows "write_csv io_ok data_list csv_file csv_columns =
           Written csv_file
             ([Str ''projection_x'', Str ''projection_y'', Str ''latitude'', Str ''longitude'',
               Str ''name'', Str ''translation'', Str ''description''] #
              map (\<lambda>data.
                     [dict_get data ''projection_x'' (Str ''''), dict_get data ''projection_y'' (Str ''''),
                      dict_get data ''latitude'' (Str ''''), dict_get data ''longitude'' (Str ''''),
                      dict_get data ''name'' (Str ''''), dict_get data ''translation'' (Str ''''),
                      dict_get data ''description'' (Str '''')])
                data_list) \<and>
         (os_listdir fs root_dir = Inr names \<and> walk L fs root_dir names [] = Inr data_list \<longrightarrow>
            main L io_ok fs root_dir = Inr (write_csv io_ok data_list ''output.csv'' csv_columns))"
  using assms by (simp add: write_csv_def csv_row_def csv_columns_def main_def)

text \<open>
  The same on two records, one with two keys and one empty.
\<close>

theorem write_csv_rows_witness:
  "write_csv True [[(''name'', Str ''Foo''), (''latitude'', Flt (FloatOf ''53''))], []] ''output.csv'' csv_columns =
     Written ''output.csv''
       [[Str ''projection_x'', Str ''projection_y'', Str ''latitude'', Str ''longitude'',
         Str ''name'', Str ''translation'', Str ''description''],
        [Str '''', Str '''', Flt (FloatOf ''53''), Str '''', Str ''Foo'', Str '''', Str ''''],
        [Str '''', Str '''', Str '''', Str '''', Str '''', Str '''', Str '''']]"
  using write_csv_rows [of True "[[(''name'', Str ''Foo''), (''latitude'', Flt (FloatOf ''53''))], []]" "''output.csv''"]
  by (simp add: dict_get_def)

text \<open>
  C2 (as amended). When the root can be listed and, in every \<open>menuTabs\<close> directory
  that holds both descriptor paths, both are readable regular files, no error is
  fatal: \<open>process_directory\<close> returns (a record or no record) for every entry, the
  walker runs over all entries and collects the accepted records in order, and
  \<open>main\<close> ends by writing the CSV (possibly with the header only) or by reporting the
  write failure.
\<close>

theorem main_completes:
  assumes "os_listdir fs root_dir = Inr names"
    and "\<forall>dir_name\<in>set names. descriptors_readable fs (menu_tabs root_dir dir_name)"
  shows "(\<forall>dir_name\<in>set names. \<exists>result. process_directory L fs (menu_tabs root_dir dir_name) = Inr result) \<and>
         walk L fs root_dir names [] = Inr (concat (map (accepted_rows L fs root_dir) names)) \<and>
         main L io_ok fs root_dir =
           Inr (if io_ok
                then Written ''output.csv''
                       (map Str csv_columns #
                        map (csv_row csv_columns) (concat (map (accepted_rows L fs root_dir) names)))
                else IOError_reported ''output.csv'')"
proof -
  have a: "\<forall>dir_name\<in>set names. \<exists>result. process_directory L fs (menu_tabs root_dir dir_name) = Inr result"
    using assms(2) process_directory_returns by blast
  have w: "walk L fs root_dir names [] = Inr (concat (map (accepted_rows L fs root_dir) names))"
    using walk_rows [OF assms(2), of L "[]"] by simp
  have "main L io_ok fs root_dir =
           Inr (if io_ok
                then Written ''output.csv''
                       (map Str csv_columns #
                        map (csv_row csv_columns) (concat (map (accepted_rows L fs root_dir) names)))
                else IOError_reported ''output.csv'')"
    using assms(1) w by (simp add: main_def write_csv_def)
  with a w show ?thesis by blast
qed

text \<open>
  The same on the example corpus: one row for the complete place, none for the place
  without \<open>8.txt\<close> and for the plain file.
\<close>

theorem main_completes_witness:
  "os_listdir example_corpus [] = Inr [''ardmore'', ''ballina'', ''notes.txt''] \<and>
   descriptors_readable example_corpus (menu_tabs [] ''ardmore'') \<and>
   descriptors_readable example_corpus (menu_tabs [] ''ballina'') \<and>
   descriptors_readable example_corpus (menu_tabs [] ''notes.txt'') \<and>
   main example_libs True example_corpus [] =
     Inr (Written ''output.csv''
       [[Str ''projection_x'', Str ''projection_y'', Str ''latitude'', Str ''longitude'',
         Str ''name'', Str ''translation'', Str ''description''],
        [Str ''150000'', Str ''250000'',
         Flt (Latitude (FloatOf ''150000'') (FloatOf ''250000'')),
         Flt (Longitude (FloatOf ''150000'') (FloatOf ''250000'')),
         Str ''Foo'', Str ''Bar'', Str ''Baz'']])"
proof -
  have h1: "os_listdir example_corpus [] = Inr [''ardmore'', ''ballina'', ''notes.txt'']"
    by code_simp
  have d: "descriptors_readable example_corpus (menu_tabs [] ''ardmore'')"
    "descriptors_readable example_corpus (menu_tabs [] ''ballina'')"
    "descriptors_readable example_corpus (menu_tabs [] ''notes.txt'')"
    by code_simp+
  then have h2: "\<forall>dir_name\<in>set [''ardmore'', ''ballina'', ''notes.txt''].
      descriptors_readable example_corpus (menu_tabs [] dir_name)"
    by simp
  have r: "accepted_rows example_libs example_corpus [] ''ardmore'' =
      [[(''projection_x'', Str ''150000''), (''projection_y'', Str ''250000''),
        (''latitude'', Flt (Latitude (FloatOf ''150000'') (FloatOf ''250000''))),
        (''longitude'', Flt (Longitude (FloatOf ''150000'') (FloatOf ''250000''))),
        (''name'', Str ''Foo''), (''translation'', Str ''Bar''), (''description'', Str ''Baz'')]]"
    "accepted_rows example_libs example_corpus [] ''ballina'' = []"
    "accepted_rows example_libs example_corpus [] ''notes.txt'' = []"
    by code_simp+
  from main_completes [OF h1 h2, of example_libs True] h1 d r show ?thesis
    by (simp add: csv_row_def csv_columns_def dict_get_def)
qed

text \<open>
  C2 as stated holds for every directory tree. A descriptor path that exists but
  cannot be read makes \<open>open\<close> raise in \<open>parse_0_txt\<close>; nothing catches it and the run
  ends without writing the CSV.
\<close>

theorem main_unreadable_descriptor_counterexample:
  "os_path_exists (Directory [(''ardmore'', place Unreadable (RegFile meta_doc))])
     [''ardmore'', ''menuTabs'', ''0.txt''] \<and>
   main example_libs True (Directory [(''ardmore'', place Unreadable (RegFile meta_doc))]) [] =
     Inl PermissionError"
  by code_simp

end
